theory Spec2Isabelle
  imports Main "HOL-Library.Word"
begin

section \<open>The update client of mender (client.go)\<close>

text \<open>
  A shallow embedding of \<^verbatim>\<open>client.go\<close>: the plain and the TLS client, the
  update check (\<^verbatim>\<open>GetScheduledUpdate\<close>, \<^verbatim>\<open>processUpdateResponse\<close>,
  \<^verbatim>\<open>validateGetUpdate\<close>) and the download guard (\<^verbatim>\<open>FetchUpdate\<close>).

  Go's standard library is not part of the file. What the code calls from it
  (\<^verbatim>\<open>http.NewRequest\<close>, \<^verbatim>\<open>http.Client.Do\<close>, \<^verbatim>\<open>json.Unmarshal\<close>,
  \<^verbatim>\<open>ioutil.ReadFile\<close>, \<^verbatim>\<open>CertPool.AppendCertsFromPEM\<close>,
  \<^verbatim>\<open>tls.LoadX509KeyPair\<close>) is a field of the record \<open>platform\<close>, and every
  function of the model takes the platform as its first argument. Calls to the
  logger have no effect on any result and are left out.
\<close>

subsection \<open>Errors\<close>

text \<open>
  A Go \<^verbatim>\<open>error\<close> is an interface value. The code builds its own errors with
  \<^verbatim>\<open>errors.New\<close>, tells \<^verbatim>\<open>*json.SyntaxError\<close> from every other dynamic
  type in a type switch, and otherwise hands errors of the library on unchanged.
  Every error carries the text that \<^verbatim>\<open>err.Error()\<close> returns.
\<close>

datatype error =
    errors_New string
  | json_SyntaxError string
  | library_error string

fun Error :: "error \<Rightarrow> string" where
  "Error (errors_New s) = s"
| "Error (json_SyntaxError s) = s"
| "Error (library_error s) = s"

definition errorLoadingClientCertificate :: error where
  "errorLoadingClientCertificate = errors_New ''Failed to load certificate and key''"

definition errorNoServerCertificateFound :: error where
  "errorNoServerCertificateFound =
     errors_New ''No server certificate is provided, use -trusted-certs with a proper certificate.''"

definition errorAddingServerCertificateToPool :: error where
  "errorAddingServerCertificateToPool =
     errors_New ''Error adding trusted server certificate to pool.''"

subsection \<open>Integers and their conversion to strings\<close>

type_synonym int64 = "64 word"

definition minimumImageSize :: int64 where
  "minimumImageSize = 4096"

text \<open>
  \<^verbatim>\<open>string(n)\<close> on an \<^verbatim>\<open>int64\<close> is Go's conversion of a code point to its
  UTF-8 encoding, not a decimal rendering; a value that is no valid code point
  gives U+FFFD. A \<open>char\<close> is one byte.
\<close>

definition string_of_int64 :: "int64 \<Rightarrow> string" where
  "string_of_int64 n =
     (let i = sint n in
      if i < 0 \<or> 0x10FFFF < i \<or> (0xD800 \<le> i \<and> i \<le> 0xDFFF)
        then [char_of (0xEF :: int), char_of (0xBF :: int), char_of (0xBD :: int)]
      else if i < 0x80 then [char_of i]
      else if i < 0x800 then [char_of (0xC0 + i div 64), char_of (0x80 + i mod 64)]
      else if i < 0x10000
        then [char_of (0xE0 + i div 4096), char_of (0x80 + (i div 64) mod 64),
              char_of (0x80 + i mod 64)]
      else [char_of (0xF0 + i div 262144), char_of (0x80 + (i div 4096) mod 64),
            char_of (0x80 + (i div 64) mod 64), char_of (0x80 + i mod 64)])"

subsection \<open>Data\<close>

record Image_t =
  URI :: string
  Checksum :: string
  ID :: string

record UpdateResponse =
  Image :: Image_t
  ID :: string

record httpsClientConfig =
  certFile :: string
  certKey :: string
  serverCert :: string

text \<open>
  A certificate pool is the list of the subjects of its certificates
  (\<^verbatim>\<open>Subjects()\<close>); the zero value of \<^verbatim>\<open>x509.CertPool\<close> and
  \<^verbatim>\<open>x509.NewCertPool()\<close> are the empty pool. A \<^verbatim>\<open>tls.Certificate\<close> is its
  chain of encoded certificates; the zero value is the empty chain.
\<close>

type_synonym CertPool = "string list"
type_synonym Certificate = "string list"

definition x509_NewCertPool :: CertPool where
  "x509_NewCertPool = []"

definition Subjects :: "CertPool \<Rightarrow> string list" where
  "Subjects pool = pool"

record http_Transport =
  RootCAs :: CertPool
  Certificates :: "Certificate list"

text \<open>\<^verbatim>\<open>http.Client\<close>: no transport set means the default transport.\<close>

record http_Client =
  Transport :: "http_Transport option"

record httpClient =
  HTTPClient :: http_Client
  minImageSize :: int64

text \<open>
  \<^verbatim>\<open>httpsClient\<close> embeds \<^verbatim>\<open>httpClient\<close> and \<^verbatim>\<open>httpsClientAuthCreds\<close>;
  the fields and methods of both are promoted, so it is the record
  \<open>httpClient\<close> extended by the two fields of the credentials.
\<close>

record httpsClient = httpClient +
  clientCert :: Certificate
  trustedCerts :: CertPool

text \<open>
  The interface \<^verbatim>\<open>Updater\<close> has two implementations. \<^verbatim>\<open>NewHttpClient\<close>
  never returns nil; \<^verbatim>\<open>NewHttpsClient\<close> returns a pointer that may be nil,
  and the interface value then wraps that nil pointer.
\<close>

datatype Updater =
    Updater_httpClient httpClient
  | Updater_httpsClient "httpsClient option"

record http_Request =
  Method :: string
  URL :: string

text \<open>
  The body of a response is a stream on the heap; a response holds a handle to
  it. The state of the streams is the record \<open>world\<close>.
\<close>

record http_Response =
  Status :: string
  StatusCode :: int
  ContentLength :: int64
  Body :: nat

record world =
  pending :: "nat \<Rightarrow> error + string"
  closed :: "nat set"

record platform =
  http_NewRequest :: "string \<Rightarrow> string \<Rightarrow> error + http_Request"
  http_Do :: "http_Client \<Rightarrow> http_Request \<Rightarrow> world \<Rightarrow> (error + http_Response) \<times> world"
  json_Unmarshal :: "string \<Rightarrow> error + UpdateResponse"
  ioutil_ReadFile :: "string \<Rightarrow> error + string"
  AppendCertsFromPEM :: "CertPool \<Rightarrow> string \<Rightarrow> CertPool"
  tls_LoadX509KeyPair :: "string \<Rightarrow> string \<Rightarrow> error + Certificate"

text \<open>
  \<^verbatim>\<open>ioutil.ReadAll\<close> drains a stream: \<open>pending w h\<close> is what draining the
  stream \<open>h\<close> yields in the state \<open>w\<close>, the bytes up to the end of the
  stream or the error that stops the read. After a read that reached the end
  nothing is left to read.
\<close>

definition ioutil_ReadAll :: "nat \<Rightarrow> world \<Rightarrow> (error + string) \<times> world" where
  "ioutil_ReadAll h w =
     (pending w h,
      w\<lparr>pending := (pending w)(h := (case pending w h of Inl e \<Rightarrow> Inl e | Inr _ \<Rightarrow> Inr []))\<rparr>)"

definition Close :: "nat \<Rightarrow> world \<Rightarrow> world" where
  "Close h w = w\<lparr>closed := insert h (closed w)\<rparr>"

definition http_MethodGet :: string where
  "http_MethodGet = ''GET''"

subsection \<open>Client initialization\<close>

definition NewHttpClient :: httpClient where
  "NewHttpClient = \<lparr>HTTPClient = \<lparr>Transport = None\<rparr>, minImageSize = minimumImageSize\<rparr>"

definition initServerTrust ::
  "platform \<Rightarrow> httpsClient \<Rightarrow> httpsClientConfig \<Rightarrow> error option \<times> httpsClient" where
  "initServerTrust P c conf =
     (if serverCert conf = [] then (None, c)
      else
        let c1 = c\<lparr>trustedCerts := x509_NewCertPool\<rparr> in
        (case ioutil_ReadFile P (serverCert conf) of
           Inl err \<Rightarrow> (Some err, c1)
         | Inr cacert \<Rightarrow>
             let c2 = c1\<lparr>trustedCerts := AppendCertsFromPEM P (trustedCerts c1) cacert\<rparr> in
             if length (Subjects (trustedCerts c2)) = 0
               then (Some errorAddingServerCertificateToPool, c2)
               else (None, c2)))"

definition initClientCert ::
  "platform \<Rightarrow> httpsClient \<Rightarrow> httpsClientConfig \<Rightarrow> error option \<times> httpsClient" where
  "initClientCert P c conf =
     (if certFile conf = [] \<or> certKey conf = [] then (None, c)
      else
        (case tls_LoadX509KeyPair P (certFile conf) (certKey conf) of
           Inl err \<Rightarrow> (Some errorLoadingClientCertificate, c)
         | Inr cert \<Rightarrow> (None, c\<lparr>clientCert := cert\<rparr>)))"

definition NewHttpsClient :: "platform \<Rightarrow> httpsClientConfig \<Rightarrow> httpsClient option" where
  "NewHttpsClient P conf =
     (let client = httpClient.extend NewHttpClient
                     (httpsClient.fields [] []) in
      (case initServerTrust P client conf of
         (Some err, c1) \<Rightarrow> None
       | (None, c1) \<Rightarrow>
           (case initClientCert P c1 conf of
              (Some err, c2) \<Rightarrow> None
            | (None, c2) \<Rightarrow>
                let transport = \<lparr>RootCAs = trustedCerts c2, Certificates = [clientCert c2]\<rparr> in
                Some (c2\<lparr>HTTPClient := (HTTPClient c2)\<lparr>Transport := Some transport\<rparr>\<rparr>))))"

definition NewUpdater :: "platform \<Rightarrow> httpsClientConfig \<Rightarrow> Updater" where
  "NewUpdater P conf =
     (if conf = \<lparr>certFile = [], certKey = [], serverCert = []\<rparr>
        then Updater_httpClient NewHttpClient
        else Updater_httpsClient (NewHttpsClient P conf))"

subsection \<open>Requests\<close>

definition makeAndSendRequest ::
  "platform \<Rightarrow> httpClient \<Rightarrow> string \<Rightarrow> string \<Rightarrow> world \<Rightarrow> (error + http_Response) \<times> world" where
  "makeAndSendRequest P client method url w =
     (case http_NewRequest P method url of
        Inl err \<Rightarrow> (Inl err, w)
      | Inr res \<Rightarrow> http_Do P (HTTPClient client) res w)"

text \<open>
  \<^verbatim>\<open>GetScheduledUpdate\<close> returns what \<open>process\<close> returns; the deferred
  \<^verbatim>\<open>r.Body.Close()\<close> runs after \<open>process\<close> has returned.
\<close>

definition GetScheduledUpdate ::
  "platform \<Rightarrow> httpClient \<Rightarrow>
   (http_Response \<Rightarrow> world \<Rightarrow> ('a option \<times> error option) \<times> world) \<Rightarrow>
   string \<Rightarrow> world \<Rightarrow> ('a option \<times> error option) \<times> world" where
  "GetScheduledUpdate P c process server w =
     (case makeAndSendRequest P c http_MethodGet server w of
        (Inl err, w1) \<Rightarrow> ((None, Some err), w1)
      | (Inr r, w1) \<Rightarrow>
          (case process r w1 of (res, w2) \<Rightarrow> (res, Close (Body r) w2)))"

definition FetchUpdate ::
  "platform \<Rightarrow> httpClient \<Rightarrow> string \<Rightarrow> world \<Rightarrow>
   (nat option \<times> int64 \<times> error option) \<times> world" where
  "FetchUpdate P c url w =
     (case makeAndSendRequest P c http_MethodGet url w of
        (Inl err, w1) \<Rightarrow> ((None, - 1, Some err), w1)
      | (Inr r, w1) \<Rightarrow>
          if sint (ContentLength r) < 0
            then ((None, - 1,
                   Some (errors_New ''Will not continue with unknown image size.'')), w1)
          else if sint (ContentLength r) < sint (minImageSize c)
            then ((None, - 1,
                   Some (errors_New (''Less than '' @ string_of_int64 (minImageSize c) @
                     ''KiB image update ('' @ string_of_int64 (ContentLength r) @
                     '' bytes)? Something is wrong, aborting.''))), w1)
          else ((Some (Body r), ContentLength r, None), w1))"

subsection \<open>The update response\<close>

definition updateResponseHaveUpdate :: int where
  "updateResponseHaveUpdate = 200"

definition updateResponseNoUpdates :: int where
  "updateResponseNoUpdates = 204"

definition updateResponseError :: int where
  "updateResponseError = 404"

definition validateGetUpdate :: "UpdateResponse \<Rightarrow> error option" where
  "validateGetUpdate update =
     (if UpdateResponse.ID update \<noteq> [] \<and> Image_t.ID (Image update) \<noteq> [] \<and>
         Checksum (Image update) \<noteq> [] \<and> URI (Image update) \<noteq> []
        then None
        else Some (errors_New ''Missing parameters in encoded JSON response''))"

definition processUpdateResponse ::
  "platform \<Rightarrow> http_Response \<Rightarrow> world \<Rightarrow> (UpdateResponse option \<times> error option) \<times> world" where
  "processUpdateResponse P response w =
     (case ioutil_ReadAll (Body response) w of
        (Inl err, w1) \<Rightarrow> ((None, Some err), w1)
      | (Inr respBody, w1) \<Rightarrow>
          if StatusCode response = updateResponseHaveUpdate then
            (case json_Unmarshal P respBody of
               Inl err \<Rightarrow>
                 (case err of
                    json_SyntaxError m \<Rightarrow>
                      ((None, Some (errors_New ''Error parsing data syntax'')), w1)
                  | _ \<Rightarrow>
                      ((None, Some (errors_New (''Error parsing data: '' @ Error err))), w1))
             | Inr data \<Rightarrow>
                 (case validateGetUpdate data of
                    Some err \<Rightarrow> ((None, Some err), w1)
                  | None \<Rightarrow> ((Some data, None), w1)))
          else if StatusCode response = updateResponseNoUpdates then ((None, None), w1)
          else if StatusCode response = updateResponseError then
            ((None, Some (errors_New ''Client not authorized to get update schedule.'')), w1)
          else ((None, Some (errors_New ''Invalid response received from server'')), w1))"

subsection \<open>A sample platform\<close>

text \<open>
  A concrete platform, used to evaluate the functions above on explicit inputs:
  a server that answers every request with a given response (and cannot be
  reached under one URL), a decoder that knows a few bodies, and a file system
  with a missing file, a file holding one certificate and files without any.
\<close>

definition sample_descriptor :: UpdateResponse where
  "sample_descriptor =
     \<lparr>Image = \<lparr>URI = ''http://x/img'', Checksum = ''abc'', ID = ''i1''\<rparr>, ID = ''u1''\<rparr>"

definition sample_Unmarshal :: "string \<Rightarrow> error + UpdateResponse" where
  "sample_Unmarshal b =
     (if b = ''not json'' then Inl (json_SyntaxError ''invalid character o in literal null'')
      else if b = ''[]'' then Inl (library_error ''json: cannot unmarshal array'')
      else if b = ''{}'' then Inr \<lparr>Image = \<lparr>URI = [], Checksum = [], ID = []\<rparr>, ID = []\<rparr>
      else if b = ''no uri'' then Inr (sample_descriptor\<lparr>Image := (Image sample_descriptor)\<lparr>URI := []\<rparr>\<rparr>)
      else Inr sample_descriptor)"

definition sample_platform :: "http_Response \<Rightarrow> platform" where
  "sample_platform r =
     \<lparr>http_NewRequest = (\<lambda>m u. Inr \<lparr>Method = m, URL = u\<rparr>),
      http_Do = (\<lambda>c req w.
         if URL req = ''http://unreachable'' then (Inl (library_error ''connection refused''), w)
         else (Inr r, w)),
      json_Unmarshal = sample_Unmarshal,
      ioutil_ReadFile = (\<lambda>p.
         if p = ''/missing'' then Inl (library_error ''open /missing: no such file or directory'')
         else if p = ''/ca.pem'' then Inr ''PEM''
         else Inr ''garbage''),
      AppendCertsFromPEM = (\<lambda>pool pem. if pem = ''PEM'' then pool @ [''CN=server''] else pool),
      tls_LoadX509KeyPair = (\<lambda>c k. Inr [''client''])\<rparr>"

definition sample_response :: "int \<Rightarrow> int64 \<Rightarrow> http_Response" where
  "sample_response code len = \<lparr>Status = [], StatusCode = code, ContentLength = len, Body = 0\<rparr>"

definition sample_world :: "error + string \<Rightarrow> world" where
  "sample_world b = \<lparr>pending = (\<lambda>h. b), closed = {}\<rparr>"

section \<open>Properties\<close>

subsection \<open>Auxiliary facts\<close>

lemma ioutil_ReadAll_result: "fst (ioutil_ReadAll h w) = pending w h"
  by (simp add: ioutil_ReadAll_def)

lemma ioutil_ReadAll_other:
  "h' \<noteq> h \<Longrightarrow> pending (snd (ioutil_ReadAll h w)) h' = pending w h'"
  by (simp add: ioutil_ReadAll_def)

lemma processUpdateResponse_world:
  "snd (processUpdateResponse P r w) = snd (ioutil_ReadAll (Body r) w)"
  by (simp add: processUpdateResponse_def split: prod.splits sum.splits error.splits option.splits)

lemma processUpdateResponse_depends:
  assumes "StatusCode r1 = StatusCode r2"
    and "pending w1 (Body r1) = pending w2 (Body r2)"
  shows "fst (processUpdateResponse P r1 w1) = fst (processUpdateResponse P r2 w2)"
  using assms
  by (simp add: processUpdateResponse_def ioutil_ReadAll_def
      split: sum.splits error.splits option.splits)

lemma string_of_int64_minimumImageSize:
  "string_of_int64 minimumImageSize = [char_of (0xE1 :: int), char_of (0x80 :: int), char_of (0x80 :: int)]"
  by (simp add: string_of_int64_def minimumImageSize_def)

lemma minImageSize_NewHttpClient: "minImageSize NewHttpClient = minimumImageSize"
  by (simp add: NewHttpClient_def)

lemma minImageSize_initServerTrust: "minImageSize (snd (initServerTrust P c conf)) = minImageSize c"
  by (simp add: initServerTrust_def Let_def split: sum.splits)

lemma minImageSize_initClientCert: "minImageSize (snd (initClientCert P c conf)) = minImageSize c"
  by (simp add: initClientCert_def split: sum.splits)

lemma minImageSize_NewHttpsClient:
  assumes "NewHttpsClient P conf = Some c"
  shows "minImageSize c = minimumImageSize"
proof -
  let ?c0 = "httpClient.extend NewHttpClient (httpsClient.fields [] [])"
  obtain e1 c1 where 1: "initServerTrust P ?c0 conf = (e1, c1)" by (cases "initServerTrust P ?c0 conf")
  obtain e2 c2 where 2: "initClientCert P c1 conf = (e2, c2)" by (cases "initClientCert P c1 conf")
  have "minImageSize c1 = minimumImageSize"
    using minImageSize_initServerTrust [of P ?c0 conf] 1
    by (simp add: NewHttpClient_def httpClient.defs httpsClient.defs)
  moreover have "minImageSize c2 = minImageSize c1"
    using minImageSize_initClientCert [of P c1 conf] 2 by simp
  ultimately show ?thesis
    using assms 1 2 by (auto simp: NewHttpsClient_def Let_def split: option.splits)
qed

subsection \<open>Validation of the decoded descriptor\<close>

text \<open>
  C1. On status 200, with the body read and decoded into a descriptor, the
  check returns that descriptor without an error exactly when \<^verbatim>\<open>ID\<close>,
  \<^verbatim>\<open>Image.ID\<close>, \<^verbatim>\<open>Image.Checksum\<close> and \<^verbatim>\<open>Image.URI\<close> are all
  non-empty; when any of the four is empty it returns no descriptor and the
  error of \<^verbatim>\<open>validateGetUpdate\<close>.
\<close>

theorem validated_descriptor_iff_complete:
  assumes "StatusCode response = 200"
    and "pending w (Body response) = Inr respBody"
    and "json_Unmarshal P respBody = Inr data"
  shows "fst (processUpdateResponse P response w) =
           (if UpdateResponse.ID data \<noteq> [] \<and> Image_t.ID (Image data) \<noteq> [] \<and>
               Checksum (Image data) \<noteq> [] \<and> URI (Image data) \<noteq> []
            then (Some data, None)
            else (None, Some (errors_New ''Missing parameters in encoded JSON response'')))"
  using assms
  by (simp add: processUpdateResponse_def ioutil_ReadAll_def validateGetUpdate_def
      updateResponseHaveUpdate_def)

theorem validated_descriptor_iff_complete_witness:
  "fst (processUpdateResponse (sample_platform (sample_response 200 0)) (sample_response 200 0)
          (sample_world (Inr ''no uri''))) =
     (None, Some (errors_New ''Missing parameters in encoded JSON response'')) \<and>
   fst (processUpdateResponse (sample_platform (sample_response 200 0)) (sample_response 200 0)
          (sample_world (Inr ''descriptor''))) = (Some sample_descriptor, None)"
  using validated_descriptor_iff_complete
      [of "sample_response 200 0" "sample_world (Inr ''no uri'')" "''no uri''"
          "sample_platform (sample_response 200 0)"
          "sample_descriptor\<lparr>Image := (Image sample_descriptor)\<lparr>URI := []\<rparr>\<rparr>"]
    validated_descriptor_iff_complete
      [of "sample_response 200 0" "sample_world (Inr ''descriptor'')" "''descriptor''"
          "sample_platform (sample_response 200 0)" sample_descriptor]
  by (simp add: sample_response_def sample_world_def sample_platform_def sample_Unmarshal_def
      sample_descriptor_def)

subsection \<open>Classification by status code\<close>




subsection \<open>The download guard\<close>

text \<open>
  C3. For a client whose threshold is the constant \<^verbatim>\<open>minimumImageSize\<close>
  (every client that \<^verbatim>\<open>NewHttpClient\<close> or \<^verbatim>\<open>NewHttpsClient\<close> builds, see
  \<open>minImageSize_NewHttpClient\<close> and \<open>minImageSize_NewHttpsClient\<close>) and a
  request that is answered, \<^verbatim>\<open>FetchUpdate\<close> decides on the declared length
  alone, whatever the status: below 0 the unknown-size error, from 0 up to
  4095 the too-small error, from 4096 on the body with that length and no
  error. The length is compared with 4096 as it is.
\<close>

theorem FetchUpdate_by_length:
  assumes "makeAndSendRequest P c http_MethodGet url w = (Inr r, w1)"
    and "minImageSize c = minimumImageSize"
  shows "FetchUpdate P c url w =
           (if sint (ContentLength r) < 0
              then ((None, - 1,
                     Some (errors_New ''Will not continue with unknown image size.'')), w1)
            else if sint (ContentLength r) < 4096
              then ((None, - 1,
                     Some (errors_New (''Less than '' @ string_of_int64 minimumImageSize @
                       ''KiB image update ('' @ string_of_int64 (ContentLength r) @
                       '' bytes)? Something is wrong, aborting.''))), w1)
            else ((Some (Body r), ContentLength r, None), w1))"
  using assms by (simp add: FetchUpdate_def minimumImageSize_def)

theorem FetchUpdate_by_length_witness:
  "fst (FetchUpdate (sample_platform (sample_response 200 (- 1))) NewHttpClient ''http://x/img''
          (sample_world (Inr []))) =
     (None, - 1, Some (errors_New ''Will not continue with unknown image size.'')) \<and>
   fst (FetchUpdate (sample_platform (sample_response 200 4095)) NewHttpClient ''http://x/img''
          (sample_world (Inr []))) =
     (None, - 1,
      Some (errors_New (''Less than '' @ string_of_int64 4096 @ ''KiB image update ('' @
        string_of_int64 4095 @ '' bytes)? Something is wrong, aborting.''))) \<and>
   fst (FetchUpdate (sample_platform (sample_response 500 4096)) NewHttpClient ''http://x/img''
          (sample_world (Inr []))) = (Some 0, 4096, None)"
proof -
  have send: "makeAndSendRequest (sample_platform (sample_response code len)) NewHttpClient
                http_MethodGet ''http://x/img'' (sample_world (Inr [])) =
              (Inr (sample_response code len), sample_world (Inr []))" for code len
    by (simp add: makeAndSendRequest_def sample_platform_def)
  have size: "minImageSize NewHttpClient = minimumImageSize"
    by (simp add: NewHttpClient_def)
  show ?thesis
    using FetchUpdate_by_length [OF send [of 200 "- 1"] size]
      FetchUpdate_by_length [OF send [of 200 4095] size]
      FetchUpdate_by_length [OF send [of 500 4096] size]
    by (simp add: sample_response_def minimumImageSize_def)
qed

text \<open>
  C10. Whenever \<^verbatim>\<open>FetchUpdate\<close> returns an error (the request failed, the
  length is unknown, or it is below the client's threshold, whatever that
  threshold is), the stream it returns is nil and the length is -1.
\<close>

theorem FetchUpdate_error_exposes_nothing:
  assumes "snd (snd (fst (FetchUpdate P c url w))) \<noteq> None"
  shows "fst (fst (FetchUpdate P c url w)) = None \<and>
         fst (snd (fst (FetchUpdate P c url w))) = - 1"
  using assms
  by (auto simp: FetchUpdate_def split: prod.splits sum.splits if_splits)

theorem FetchUpdate_error_exposes_nothing_witness:
  "snd (snd (fst (FetchUpdate (sample_platform (sample_response 200 100)) NewHttpClient
     ''http://x/img'' (sample_world (Inr []))))) \<noteq> None \<and>
   fst (fst (FetchUpdate (sample_platform (sample_response 200 100)) NewHttpClient
     ''http://x/img'' (sample_world (Inr [])))) = None \<and>
   fst (snd (fst (FetchUpdate (sample_platform (sample_response 200 100)) NewHttpClient
     ''http://x/img'' (sample_world (Inr []))))) = - 1"
proof -
  have failed: "snd (snd (fst (FetchUpdate (sample_platform (sample_response 200 100))
                  NewHttpClient ''http://x/img'' (sample_world (Inr []))))) \<noteq> None"
    by (simp add: FetchUpdate_def makeAndSendRequest_def sample_platform_def
        sample_response_def NewHttpClient_def minimumImageSize_def)
  show ?thesis
    using failed FetchUpdate_error_exposes_nothing [OF failed] by simp
qed

subsection \<open>Decode failures\<close>

text \<open>
  C4. On status 200 with the body read, a decode failure of dynamic type
  \<^verbatim>\<open>*json.SyntaxError\<close> yields the error \<^verbatim>\<open>Error parsing data syntax\<close>, and
  every other decode failure yields \<^verbatim>\<open>Error parsing data: \<close> followed by the
  failure's own text. The two results differ whatever that text is, so the
  two kinds of failure are never reported by the same error.
\<close>

theorem decode_failures_distinguished:
  assumes "StatusCode response = 200"
    and "pending w (Body response) = Inr respBody"
    and "json_Unmarshal P respBody = Inl err"
  shows "fst (processUpdateResponse P response w) =
           (None, Some (case err of
                          json_SyntaxError m \<Rightarrow> errors_New ''Error parsing data syntax''
                        | _ \<Rightarrow> errors_New (''Error parsing data: '' @ Error err))) \<and>
         errors_New (''Error parsing data: '' @ text) \<noteq> errors_New ''Error parsing data syntax''"
  using assms
  by (simp add: processUpdateResponse_def ioutil_ReadAll_def updateResponseHaveUpdate_def
      split: error.splits)

theorem decode_failures_distinguished_witness:
  "fst (processUpdateResponse (sample_platform (sample_response 200 0)) (sample_response 200 0)
          (sample_world (Inr ''not json''))) =
     (None, Some (errors_New ''Error parsing data syntax'')) \<and>
   fst (processUpdateResponse (sample_platform (sample_response 200 0)) (sample_response 200 0)
          (sample_world (Inr ''[]''))) =
     (None, Some (errors_New ''Error parsing data: json: cannot unmarshal array''))"
  using decode_failures_distinguished
      [of "sample_response 200 0" "sample_world (Inr ''not json'')" "''not json''"
          "sample_platform (sample_response 200 0)"
          "json_SyntaxError ''invalid character o in literal null''" "[]"]
    decode_failures_distinguished
      [of "sample_response 200 0" "sample_world (Inr ''[]'')" "''[]''"
          "sample_platform (sample_response 200 0)"
          "library_error ''json: cannot unmarshal array''" "[]"]
  by (simp add: sample_response_def sample_world_def sample_platform_def sample_Unmarshal_def)

subsection \<open>Construction\<close>

text \<open>
  C7. From the all-empty configuration \<^verbatim>\<open>NewUpdater\<close> returns, on every
  platform, the plain client: default transport (no TLS configuration) and
  the threshold 4096. No step of it can fail.
\<close>

theorem NewUpdater_empty_config:
  "NewUpdater P \<lparr>certFile = [], certKey = [], serverCert = []\<rparr> =
     Updater_httpClient \<lparr>HTTPClient = \<lparr>Transport = None\<rparr>, minImageSize = 4096\<rparr>"
  by (simp add: NewUpdater_def NewHttpClient_def minimumImageSize_def)

text \<open>
  C5, as stated, fails in one of its two cases: when the file cannot be read,
  \<^verbatim>\<open>initServerTrust\<close> returns the error of \<^verbatim>\<open>ioutil.ReadFile\<close>, not
  \<^verbatim>\<open>errorAddingServerCertificateToPool\<close>.
\<close>

theorem unreadable_server_cert_counterexample:
  "fst (initServerTrust (sample_platform (sample_response 200 0))
          (httpClient.extend NewHttpClient (httpsClient.fields [] []))
          \<lparr>certFile = [], certKey = [], serverCert = ''/missing''\<rparr>) =
     Some (library_error ''open /missing: no such file or directory'') \<and>
   fst (initServerTrust (sample_platform (sample_response 200 0))
          (httpClient.extend NewHttpClient (httpsClient.fields [] []))
          \<lparr>certFile = [], certKey = [], serverCert = ''/missing''\<rparr>) \<noteq>
     Some errorAddingServerCertificateToPool"
  by (simp add: initServerTrust_def sample_platform_def errorAddingServerCertificateToPool_def)

text \<open>
  C5, amended. With a non-empty \<^verbatim>\<open>serverCert\<close> path: when the file cannot be
  read, \<^verbatim>\<open>initServerTrust\<close> fails with the read error; when it is read and
  no certificate of it enters the pool, \<^verbatim>\<open>initServerTrust\<close> fails with
  \<^verbatim>\<open>errorAddingServerCertificateToPool\<close>. In both cases \<^verbatim>\<open>NewHttpsClient\<close>
  returns nil, and \<^verbatim>\<open>NewUpdater\<close> returns an \<^verbatim>\<open>Updater\<close> that wraps this nil
  pointer.
\<close>

theorem server_trust_failure_yields_no_client:
  assumes "serverCert conf \<noteq> []"
    and "case ioutil_ReadFile P (serverCert conf) of
           Inl err \<Rightarrow> True
         | Inr cacert \<Rightarrow> AppendCertsFromPEM P x509_NewCertPool cacert = []"
  shows "fst (initServerTrust P c conf) =
           Some (case ioutil_ReadFile P (serverCert conf) of
                   Inl err \<Rightarrow> err
                 | Inr cacert \<Rightarrow> errorAddingServerCertificateToPool) \<and>
         NewHttpsClient P conf = None \<and>
         NewUpdater P conf = Updater_httpsClient None"
proof -
  have trust: "fst (initServerTrust P c' conf) =
                 Some (case ioutil_ReadFile P (serverCert conf) of
                         Inl err \<Rightarrow> err
                       | Inr cacert \<Rightarrow> errorAddingServerCertificateToPool)" for c'
    using assms by (simp add: initServerTrust_def Subjects_def split: sum.splits)
  have none: "NewHttpsClient P conf = None"
    using trust [of "httpClient.extend NewHttpClient (httpsClient.fields [] [])"]
    by (cases "initServerTrust P (httpClient.extend NewHttpClient (httpsClient.fields [] [])) conf")
      (simp add: NewHttpsClient_def)
  have "conf \<noteq> \<lparr>certFile = [], certKey = [], serverCert = []\<rparr>"
    using assms(1) by auto
  then have "NewUpdater P conf = Updater_httpsClient None"
    using none by (simp add: NewUpdater_def)
  with trust none show ?thesis by simp
qed

theorem server_trust_failure_yields_no_client_witness:
  "fst (initServerTrust (sample_platform (sample_response 200 0))
          (httpClient.extend NewHttpClient (httpsClient.fields [] []))
          \<lparr>certFile = [], certKey = [], serverCert = ''/etc/hosts''\<rparr>) =
     Some errorAddingServerCertificateToPool \<and>
   NewHttpsClient (sample_platform (sample_response 200 0))
     \<lparr>certFile = [], certKey = [], serverCert = ''/etc/hosts''\<rparr> = None \<and>
   NewUpdater (sample_platform (sample_response 200 0))
     \<lparr>certFile = [], certKey = [], serverCert = ''/etc/hosts''\<rparr> = Updater_httpsClient None \<and>
   NewUpdater (sample_platform (sample_response 200 0))
     \<lparr>certFile = [], certKey = [], serverCert = ''/missing''\<rparr> = Updater_httpsClient None"
  using server_trust_failure_yields_no_client
      [of "\<lparr>certFile = [], certKey = [], serverCert = ''/etc/hosts''\<rparr>"
          "sample_platform (sample_response 200 0)"
          "httpClient.extend NewHttpClient (httpsClient.fields [] [])"]
    server_trust_failure_yields_no_client
      [of "\<lparr>certFile = [], certKey = [], serverCert = ''/missing''\<rparr>"
          "sample_platform (sample_response 200 0)"
          "httpClient.extend NewHttpClient (httpsClient.fields [] [])"]
  by (simp add: sample_platform_def x509_NewCertPool_def)

subsection \<open>The update check against the network\<close>



text \<open>
  C8. Once the request of \<^verbatim>\<open>GetScheduledUpdate\<close> has been answered, the body
  of the response is closed when the routine returns, whatever the processing
  function does and returns; with \<^verbatim>\<open>processUpdateResponse\<close> the caller gets
  exactly its result, a descriptor or nil with an error or nil, never the body.
  (When the request fails there is no response and no body.)
\<close>

theorem GetScheduledUpdate_closes_body:
  assumes "makeAndSendRequest P c http_MethodGet server w = (Inr r, w1)"
  shows "Body r \<in> closed (snd (GetScheduledUpdate P c process server w)) \<and>
         fst (GetScheduledUpdate P c (processUpdateResponse P) server w) =
           fst (processUpdateResponse P r w1)"
  using assms by (simp add: GetScheduledUpdate_def Close_def split: prod.splits)

theorem GetScheduledUpdate_closes_body_witness:
  "Body (sample_response 500 0) \<in>
     closed (snd (GetScheduledUpdate (sample_platform (sample_response 500 0)) NewHttpClient
       (processUpdateResponse (sample_platform (sample_response 500 0)))
       ''http://server/update'' (sample_world (Inr [])))) \<and>
   fst (GetScheduledUpdate (sample_platform (sample_response 500 0)) NewHttpClient
       (processUpdateResponse (sample_platform (sample_response 500 0)))
       ''http://server/update'' (sample_world (Inr []))) =
     (None, Some (errors_New ''Invalid response received from server''))"
proof -
  have send: "makeAndSendRequest (sample_platform (sample_response 500 0)) NewHttpClient
                http_MethodGet ''http://server/update'' (sample_world (Inr [])) =
              (Inr (sample_response 500 0), sample_world (Inr []))"
    by (simp add: makeAndSendRequest_def sample_platform_def)
  have "fst (processUpdateResponse (sample_platform (sample_response 500 0))
          (sample_response 500 0) (sample_world (Inr []))) =
        (None, Some (errors_New ''Invalid response received from server''))"
    by (simp add: processUpdateResponse_def ioutil_ReadAll_def sample_response_def
        sample_world_def updateResponseHaveUpdate_def updateResponseNoUpdates_def
        updateResponseError_def)
  then show ?thesis
    using GetScheduledUpdate_closes_body [OF send] by simp
qed

text \<open>
  C9. A second invocation of \<^verbatim>\<open>processUpdateResponse\<close>, run in the state
  the first one left behind, on a second response with the same status code
  and the same body, returns what the first returned: nothing the first
  invocation changes is read by the second. (By \<open>processUpdateResponse_depends\<close>
  the result is determined by the status code and by what draining the body
  yields, in any two states.)
\<close>

theorem processUpdateResponse_repeatable:
  assumes "StatusCode r2 = StatusCode r1"
    and "Body r2 \<noteq> Body r1"
    and "pending w (Body r2) = pending w (Body r1)"
  shows "fst (processUpdateResponse P r2 (snd (processUpdateResponse P r1 w))) =
           fst (processUpdateResponse P r1 w)"
proof -
  have "pending (snd (processUpdateResponse P r1 w)) (Body r2) = pending w (Body r1)"
    using assms(2,3) by (simp add: processUpdateResponse_world ioutil_ReadAll_other)
  with assms(1) show ?thesis
    by (rule processUpdateResponse_depends)
qed

theorem processUpdateResponse_repeatable_witness:
  "fst (processUpdateResponse (sample_platform (sample_response 200 0))
          ((sample_response 200 0)\<lparr>Body := 1\<rparr>)
          (snd (processUpdateResponse (sample_platform (sample_response 200 0))
                  (sample_response 200 0) (sample_world (Inr ''descriptor''))))) =
     (Some sample_descriptor, None) \<and>
   fst (processUpdateResponse (sample_platform (sample_response 200 0))
          (sample_response 200 0) (sample_world (Inr ''descriptor''))) =
     (Some sample_descriptor, None)"
proof -
  have first: "fst (processUpdateResponse (sample_platform (sample_response 200 0))
                 (sample_response 200 0) (sample_world (Inr ''descriptor''))) =
               (Some sample_descriptor, None)"
    by (simp add: processUpdateResponse_def ioutil_ReadAll_def sample_response_def
        sample_world_def sample_platform_def sample_Unmarshal_def sample_descriptor_def
        validateGetUpdate_def updateResponseHaveUpdate_def)
  show ?thesis
    using first processUpdateResponse_repeatable
      [of "(sample_response 200 0)\<lparr>Body := 1\<rparr>" "sample_response 200 0"
          "sample_world (Inr ''descriptor'')" "sample_platform (sample_response 200 0)"]
    by (simp add: sample_response_def sample_world_def)
qed

end
